theory Spec2Isabelle
  imports Main
begin

section \<open>The PyInstaller runtime hook of browser-use-sidecar\<close>

text \<open>
  A shallow embedding of \<^verbatim>\<open>Scripts/browser-use-sidecar/runtime_hook.py\<close>. The module body
  rebinds \<^verbatim>\<open>urllib.request.getproxies\<close>, pops eight proxy variables from
  \<^verbatim>\<open>os.environ\<close> and, in a frozen application with an extraction directory, rebinds
  \<^verbatim>\<open>importlib.resources.files\<close> to the closure \<^verbatim>\<open>patched_files\<close>. The process state
  these statements read and write is a record that is passed along explicitly; raised
  exceptions are values on the left of a sum.
\<close>

subsection \<open>Python values\<close>

text \<open>
  Everything that can be raised derives from \<^verbatim>\<open>BaseException\<close>. The clause
  \<^verbatim>\<open>except Exception\<close> (line 57) catches the instances of \<^verbatim>\<open>Exception\<close> only;
  \<^verbatim>\<open>KeyboardInterrupt\<close>, \<^verbatim>\<open>SystemExit\<close> and \<^verbatim>\<open>GeneratorExit\<close> derive from
  \<^verbatim>\<open>BaseException\<close> directly. The string is the class name.
\<close>

datatype py_exception = Exception string | BaseException string

fun isinstance_Exception :: "py_exception \<Rightarrow> bool" where
  "isinstance_Exception (Exception _) = True"
| "isinstance_Exception (BaseException _) = False"

text \<open>
  The argument of \<^verbatim>\<open>files\<close>: a \<^verbatim>\<open>str\<close>, a module object (by its name), or any other
  object (by an identity).
\<close>

datatype package = Str string | Module string | Object nat

subsection \<open>pathlib on POSIX\<close>

text \<open>
  A \<^verbatim>\<open>pathlib.Path\<close> is compared by its root and its normalised components.
  \<open>splitroot\<close> is \<^verbatim>\<open>posixpath.splitroot\<close> (without the drive, which is always empty),
  written with the slices \<^verbatim>\<open>p[:1]\<close>, \<^verbatim>\<open>p[1:2]\<close>, \<^verbatim>\<open>p[2:3]\<close> as \<open>take\<close> and
  \<open>drop\<close>; \<open>Path\<close> drops empty and \<^verbatim>\<open>'.'\<close> components as the parser of pathlib does;
  \<open>truediv\<close> is the operator \<^verbatim>\<open>/\<close>: an operand with a root replaces the left side,
  any other operand appends its components.
\<close>

datatype path = PurePosixPath (path_root: string) (path_tail: "string list")

fun str_split :: "char \<Rightarrow> string \<Rightarrow> string list" where
  "str_split sep [] = [[]]"
| "str_split sep (c # cs) =
     (if c = sep then [] # str_split sep cs
      else (case str_split sep cs of
              [] \<Rightarrow> [[c]]
            | w # ws \<Rightarrow> (c # w) # ws))"

definition splitroot :: "string \<Rightarrow> string \<times> string" where
  "splitroot p =
     (if take 1 p \<noteq> ''/'' then ([], p)
      else if take 1 (drop 1 p) \<noteq> ''/'' \<or> take 1 (drop 2 p) = ''/'' then (''/'', drop 1 p)
      else (''//'', drop 2 p))"

definition Path :: "string \<Rightarrow> path" where
  "Path s =
     (case splitroot s of
        (rt, rel) \<Rightarrow>
          PurePosixPath rt (filter (\<lambda>x. x \<noteq> [] \<and> x \<noteq> ''.'') (str_split CHR ''/'' rel)))"

definition truediv :: "path \<Rightarrow> string \<Rightarrow> path" where
  "truediv p key =
     (let k = Path key in
      if path_root k \<noteq> [] then k
      else PurePosixPath (path_root p) (path_tail p @ path_tail k))"

text \<open>
  \<^verbatim>\<open>package.replace('.', '/')\<close>: every dot becomes a slash. Both characters are ASCII, so
  the replacement on the bytes of the UTF-8 form is the replacement on the code points.
\<close>

definition replace_dots :: "string \<Rightarrow> string" where
  "replace_dots package = map (\<lambda>c. if c = CHR ''.'' then CHR ''/'' else c) package"

text \<open>
  What \<^verbatim>\<open>files\<close> returns is a \<^verbatim>\<open>Traversable\<close>: a \<^verbatim>\<open>pathlib.Path\<close>, or an object of
  another resource reader, kept opaque.
\<close>

datatype traversable = PathT path | ReaderT string

subsection \<open>The process state\<close>

text \<open>
  The two rebound names hold function objects. A function object is represented by the
  code it runs: for \<^verbatim>\<open>urllib.request.getproxies\<close> the library's own function or the
  \<^verbatim>\<open>lambda: {}\<close> of line 17; for \<^verbatim>\<open>importlib.resources.files\<close> the library's own function
  or a closure \<^verbatim>\<open>patched_files\<close> with the values it captured, \<^verbatim>\<open>meipass\<close> and
  \<^verbatim>\<open>_original_files\<close>.
\<close>

datatype proxy_fn = SystemGetproxies | EmptyLambda

datatype resolver = LibraryFiles | PatchedFiles string resolver

text \<open>
  What \<^verbatim>\<open>Path.stat()\<close> does for a path: it returns a result, raises \<^verbatim>\<open>OSError\<close>
  with an \<^verbatim>\<open>errno\<close> (by its symbolic name), or raises \<^verbatim>\<open>ValueError\<close> for a path that
  cannot be encoded.
\<close>

datatype stat_result = StatOk | StatOSError string | StatValueError

text \<open>
  \<open>sys_frozen\<close> and \<open>sys_MEIPASS\<close> are the attributes \<^verbatim>\<open>sys.frozen\<close> and
  \<^verbatim>\<open>sys._MEIPASS\<close>, \<open>None\<close> when the attribute is missing. \<open>os_stat\<close> is the file
  system as \<^verbatim>\<open>Path.stat()\<close> sees it.
\<close>

record process =
  environ :: "string \<rightharpoonup> string"
  getproxies :: proxy_fn
  files :: resolver
  sys_frozen :: "bool option"
  sys_MEIPASS :: "string option"
  os_stat :: "path \<Rightarrow> stat_result"

type_synonym proxies = "string \<rightharpoonup> string"

type_synonym files_fn = "package \<Rightarrow> process \<Rightarrow> (py_exception + traversable) \<times> process"

text \<open>
  \<^verbatim>\<open>Path.exists()\<close> as pathlib defines it: \<^verbatim>\<open>True\<close> when \<^verbatim>\<open>stat()\<close> returns;
  \<^verbatim>\<open>False\<close> for an \<^verbatim>\<open>OSError\<close> whose \<^verbatim>\<open>errno\<close> is one of the four that
  \<^verbatim>\<open>_ignore_error\<close> accepts, and for \<^verbatim>\<open>ValueError\<close>; any other \<^verbatim>\<open>OSError\<close> (a
  component longer than the file system allows, a directory that may not be searched) is
  raised again.
\<close>

definition IGNORED_ERRNOS :: "string list" where
  "IGNORED_ERRNOS = [''ENOENT'', ''ENOTDIR'', ''EBADF'', ''ELOOP'']"

definition path_exists :: "process \<Rightarrow> path \<Rightarrow> py_exception + bool" where
  "path_exists s p =
     (case os_stat s p of
        StatOk \<Rightarrow> Inr True
      | StatOSError errno \<Rightarrow>
          if errno \<in> set IGNORED_ERRNOS then Inr False else Inl (Exception ''OSError'')
      | StatValueError \<Rightarrow> Inr False)"

subsection \<open>Lines 17 to 22: proxies\<close>

text \<open>
  Calling the function object bound to \<^verbatim>\<open>urllib.request.getproxies\<close>. The library's own
  function reads the environment and the system configuration; it is a parameter.
\<close>

fun call_getproxies :: "(process \<Rightarrow> proxies) \<Rightarrow> proxy_fn \<Rightarrow> process \<Rightarrow> proxies" where
  "call_getproxies system_getproxies SystemGetproxies s = system_getproxies s"
| "call_getproxies system_getproxies EmptyLambda s = Map.empty"

definition proxy_vars :: "string list" where
  "proxy_vars = [''ALL_PROXY'', ''all_proxy'', ''HTTP_PROXY'', ''http_proxy'',
                 ''HTTPS_PROXY'', ''https_proxy'', ''SOCKS_PROXY'', ''socks_proxy'']"

text \<open>
  \<^verbatim>\<open>os.environ.pop(key[, default])\<close>. The second argument is \<open>None\<close> when no default is
  passed, and then a missing key raises \<^verbatim>\<open>KeyError\<close>; \<open>Some d\<close> is a default, where
  \<open>d = None\<close> is Python's \<^verbatim>\<open>None\<close>. The result is the value returned and the
  environment left.
\<close>

definition environ_pop ::
  "string \<Rightarrow> string option option \<Rightarrow> (string \<rightharpoonup> string) \<Rightarrow>
     py_exception + (string option \<times> (string \<rightharpoonup> string))" where
  "environ_pop key dflt env =
     (case env key of
        Some v \<Rightarrow> Inr (Some v, env(key := None))
      | None \<Rightarrow>
          (case dflt of
             None \<Rightarrow> Inl (Exception ''KeyError'')
           | Some d \<Rightarrow> Inr (d, env)))"

text \<open>The loop of lines 20 to 22, one \<^verbatim>\<open>os.environ.pop(var, None)\<close> for each name.\<close>

fun clear_proxy_vars ::
  "string list \<Rightarrow> (string \<rightharpoonup> string) \<Rightarrow> py_exception + (string \<rightharpoonup> string)" where
  "clear_proxy_vars [] env = Inr env"
| "clear_proxy_vars (var # vars) env =
     (case environ_pop var (Some None) env of
        Inl e \<Rightarrow> Inl e
      | Inr (_, env') \<Rightarrow> clear_proxy_vars vars env')"

subsection \<open>Lines 27 to 63: the resource resolver\<close>

text \<open>
  The closure \<^verbatim>\<open>patched_files\<close> of lines 43 to 61, with its captured \<^verbatim>\<open>meipass\<close> and
  \<^verbatim>\<open>_original_files\<close> as the first two arguments. The inner \<open>case\<close> is the block of
  lines 46 to 52: \<open>Inr (Some p)\<close> for its early \<^verbatim>\<open>return\<close>, \<open>Inr None\<close> for falling
  through, and \<open>Inl e\<close> for an exception of \<^verbatim>\<open>exists()\<close> on line 51, which stands
  before the \<^verbatim>\<open>try\<close> and so leaves the function. The last branch is the \<^verbatim>\<open>try\<close> of
  lines 55 to 61, whose handler runs for instances of \<^verbatim>\<open>Exception\<close> and re-raises for an
  argument that is not a \<^verbatim>\<open>str\<close>. The code called may change the process state, so the
  state it leaves is returned with the result.
\<close>

definition patched_files :: "string \<Rightarrow> files_fn \<Rightarrow> files_fn" where
  "patched_files meipass original_files package s =
     (case (case package of
              Str name \<Rightarrow>
                (let package_path = replace_dots name;
                     pyinstaller_path = truediv (Path meipass) package_path
                 in case path_exists s pyinstaller_path of
                      Inl e \<Rightarrow> Inl e
                    | Inr found \<Rightarrow> Inr (if found then Some pyinstaller_path else None))
            | _ \<Rightarrow> Inr None) of
        Inl e \<Rightarrow> (Inl e, s)
      | Inr (Some pyinstaller_path) \<Rightarrow> (Inr (PathT pyinstaller_path), s)
      | Inr None \<Rightarrow>
          (case original_files package s of
             (Inr r, s') \<Rightarrow> (Inr r, s')
           | (Inl e, s') \<Rightarrow>
               if isinstance_Exception e then
                 (case package of
                    Str name \<Rightarrow> (Inr (PathT (truediv (Path meipass) (replace_dots name))), s')
                  | _ \<Rightarrow> (Inl e, s'))
               else (Inl e, s')))"

text \<open>
  Calling the function object bound to \<^verbatim>\<open>importlib.resources.files\<close>. The library's own
  function is a parameter: it imports the package, so it may raise anything and may change
  the process state.
\<close>

primrec call_files :: "files_fn \<Rightarrow> resolver \<Rightarrow> files_fn" where
  "call_files library_files LibraryFiles = library_files"
| "call_files library_files (PatchedFiles meipass original) =
     patched_files meipass (call_files library_files original)"

text \<open>
  \<^verbatim>\<open>_fix_importlib_resources\<close>, lines 27 to 63. \<^verbatim>\<open>getattr(sys, 'frozen', False)\<close> is
  false for a missing attribute; \<^verbatim>\<open>not meipass\<close> holds for a missing attribute
  (\<^verbatim>\<open>None\<close>) and for the empty string.
\<close>

definition fix_importlib_resources :: "process \<Rightarrow> process" where
  "fix_importlib_resources s =
     (if \<not> (case sys_frozen s of None \<Rightarrow> False | Some b \<Rightarrow> b) then s
      else
        (case sys_MEIPASS s of
           None \<Rightarrow> s
         | Some meipass \<Rightarrow>
             if meipass = [] then s
             else s\<lparr>files := PatchedFiles meipass (files s)\<rparr>))"

text \<open>
  The path \<^verbatim>\<open>Path(meipass) / package.replace('.', '/')\<close> of lines 47, 48 and 60.
\<close>

abbreviation pyinstaller_path :: "string \<Rightarrow> string \<Rightarrow> path" where
  "pyinstaller_path meipass name \<equiv> truediv (Path meipass) (replace_dots name)"

subsection \<open>The module body\<close>

definition runtime_hook :: "process \<Rightarrow> py_exception + process" where
  "runtime_hook s =
     (let s1 = s\<lparr>getproxies := EmptyLambda\<rparr> in
      case clear_proxy_vars proxy_vars (environ s1) of
        Inl e \<Rightarrow> Inl e
      | Inr env \<Rightarrow> Inr (fix_importlib_resources (s1\<lparr>environ := env\<rparr>)))"

text \<open>Running the module body \<open>n\<close> times in one process, stopping at a raised exception.\<close>

fun run_hooks :: "nat \<Rightarrow> process \<Rightarrow> py_exception + process" where
  "run_hooks 0 s = Inr s"
| "run_hooks (Suc n) s =
     (case runtime_hook s of
        Inl e \<Rightarrow> Inl e
      | Inr s' \<Rightarrow> run_hooks n s')"

subsection \<open>Concrete processes and library functions\<close>

text \<open>
  A file system on which the paths of \<open>present\<close> exist and a component may have at
  most 255 characters: \<^verbatim>\<open>stat()\<close> fails with \<^verbatim>\<open>ENAMETOOLONG\<close> for a path with a longer
  component, and with \<^verbatim>\<open>ENOENT\<close> for any other path that is not there.
\<close>

definition posix_stat :: "path list \<Rightarrow> path \<Rightarrow> stat_result" where
  "posix_stat present p =
     (if list_ex (\<lambda>c. 255 < length c) (path_tail p) then StatOSError ''ENAMETOOLONG''
      else if p \<in> set present then StatOk
      else StatOSError ''ENOENT'')"

text \<open>A package name of 256 characters.\<close>

definition long_name :: string where
  "long_name = replicate 256 CHR ''a''"

text \<open>
  A frozen application extracted to \<^verbatim>\<open>/tmp/_MEI123\<close>, started with a proxy variable set;
  the directory of the prompt templates named in the comment of line 45 is on the disk.
  \<open>hooked_proc\<close> is the same process after the module body has run.
\<close>

definition frozen_proc :: process where
  "frozen_proc =
     \<lparr>environ = [''HTTP_PROXY'' \<mapsto> ''socks5://127.0.0.1:1080'', ''PATH'' \<mapsto> ''/usr/bin''],
      getproxies = SystemGetproxies,
      files = LibraryFiles,
      sys_frozen = Some True,
      sys_MEIPASS = Some ''/tmp/_MEI123'',
      os_stat = posix_stat [PurePosixPath ''/''
                [''tmp'', ''_MEI123'', ''browser_use'', ''agent'', ''system_prompts'']]\<rparr>"

definition hooked_proc :: process where
  "hooked_proc =
     \<lparr>environ = [''PATH'' \<mapsto> ''/usr/bin''],
      getproxies = EmptyLambda,
      files = PatchedFiles ''/tmp/_MEI123'' LibraryFiles,
      sys_frozen = Some True,
      sys_MEIPASS = Some ''/tmp/_MEI123'',
      os_stat = posix_stat [PurePosixPath ''/''
                [''tmp'', ''_MEI123'', ''browser_use'', ''agent'', ''system_prompts'']]\<rparr>"

text \<open>The same start under a plain interpreter: no \<^verbatim>\<open>sys.frozen\<close>, no \<^verbatim>\<open>sys._MEIPASS\<close>.\<close>

definition plain_proc :: process where
  "plain_proc =
     \<lparr>environ = [''HTTP_PROXY'' \<mapsto> ''socks5://127.0.0.1:1080'', ''PATH'' \<mapsto> ''/usr/bin''],
      getproxies = SystemGetproxies,
      files = LibraryFiles,
      sys_frozen = None,
      sys_MEIPASS = None,
      os_stat = posix_stat []\<rparr>"

text \<open>
  Four behaviours of the library's \<^verbatim>\<open>files\<close>: the package is found; the package is
  missing; the import is interrupted from the keyboard; the package is found and its
  module body, run by the import, sets an environment variable.
\<close>

definition found_files :: files_fn where
  "found_files package s = (Inr (ReaderT ''site-packages''), s)"

definition missing_files :: files_fn where
  "missing_files package s = (Inl (Exception ''ModuleNotFoundError''), s)"

definition interrupted_files :: files_fn where
  "interrupted_files package s = (Inl (BaseException ''KeyboardInterrupt''), s)"

definition importing_files :: files_fn where
  "importing_files package s =
     (Inr (ReaderT ''site-packages''), s\<lparr>environ := (environ s)(''PKG_LOADED'' \<mapsto> ''1'')\<rparr>)"

section \<open>Properties\<close>

subsection \<open>Helper facts\<close>

lemma clear_proxy_vars_eq:
  "clear_proxy_vars vars env = Inr (\<lambda>v. if v \<in> set vars then None else env v)"
proof (induction vars arbitrary: env)
  case Nil
  show ?case by simp
next
  case (Cons var vars)
  have "(\<lambda>v. if v \<in> set vars then None else (env(var := None)) v) =
        (\<lambda>v. if v \<in> set (var # vars) then None else env v)"
    by (rule ext) simp
  moreover have "env var = None \<Longrightarrow>
        (\<lambda>v. if v \<in> set vars then None else env v) =
        (\<lambda>v. if v \<in> set (var # vars) then None else env v)"
    by (rule ext) simp
  ultimately show ?case
    using Cons.IH by (simp add: environ_pop_def split: option.splits)
qed

lemma fix_importlib_resources_frame:
  "environ (fix_importlib_resources s) = environ s"
  "getproxies (fix_importlib_resources s) = getproxies s"
  "sys_frozen (fix_importlib_resources s) = sys_frozen s"
  "sys_MEIPASS (fix_importlib_resources s) = sys_MEIPASS s"
  "os_stat (fix_importlib_resources s) = os_stat s"
  by (simp_all add: fix_importlib_resources_def split: option.splits)

lemma runtime_hook_eq:
  "runtime_hook s =
     Inr (fix_importlib_resources
            (s\<lparr>getproxies := EmptyLambda,
               environ := (\<lambda>v. if v \<in> set proxy_vars then None else environ s v)\<rparr>))"
  by (simp add: runtime_hook_def Let_def clear_proxy_vars_eq cong: if_cong)

lemma patched_files_exists_raises:
  "path_exists s (truediv (Path meipass) (replace_dots name)) = Inl e \<Longrightarrow>
   patched_files meipass original_files (Str name) s = (Inl e, s)"
  by (simp add: patched_files_def)

lemma patched_files_hit:
  "path_exists s (truediv (Path meipass) (replace_dots name)) = Inr True \<Longrightarrow>
   patched_files meipass original_files (Str name) s =
     (Inr (PathT (truediv (Path meipass) (replace_dots name))), s)"
  by (simp add: patched_files_def)

lemma patched_files_success:
  "path_exists s (truediv (Path meipass) (replace_dots name)) = Inr False \<Longrightarrow>
   original_files (Str name) s = (Inr r, s') \<Longrightarrow>
   patched_files meipass original_files (Str name) s = (Inr r, s')"
  by (simp add: patched_files_def)

lemma patched_files_fallback:
  "path_exists s (truediv (Path meipass) (replace_dots name)) = Inr False \<Longrightarrow>
   original_files (Str name) s = (Inl e, s') \<Longrightarrow> isinstance_Exception e \<Longrightarrow>
   patched_files meipass original_files (Str name) s =
     (Inr (PathT (truediv (Path meipass) (replace_dots name))), s')"
  by (simp add: patched_files_def)

lemma patched_files_reraise:
  "path_exists s (truediv (Path meipass) (replace_dots name)) = Inr False \<Longrightarrow>
   original_files (Str name) s = (Inl e, s') \<Longrightarrow> \<not> isinstance_Exception e \<Longrightarrow>
   patched_files meipass original_files (Str name) s = (Inl e, s')"
  by (simp add: patched_files_def)

lemma patched_files_not_str:
  "\<forall>name. package \<noteq> Str name \<Longrightarrow>
   patched_files meipass original_files package s = original_files package s"
  by (cases package; cases "original_files package s"; cases "fst (original_files package s)")
     (auto simp: patched_files_def)

lemma patched_files_idem:
  "patched_files meipass (patched_files meipass original_files) =
   patched_files meipass original_files"
proof (rule ext, rule ext)
  fix package s
  show "patched_files meipass (patched_files meipass original_files) package s =
        patched_files meipass original_files package s"
  proof (cases package)
    case (Str name)
    let ?p = "truediv (Path meipass) (replace_dots name)"
    show ?thesis
    proof (cases "path_exists s ?p")
      case (Inl x)
      then show ?thesis by (simp add: Str patched_files_exists_raises)
    next
      case (Inr found)
      show ?thesis
      proof (cases found)
        case True
        with Inr show ?thesis by (simp add: Str patched_files_hit)
      next
        case False
        with Inr have miss: "path_exists s ?p = Inr False" by simp
        obtain res s' where o: "original_files (Str name) s = (res, s')"
          by (cases "original_files (Str name) s")
        show ?thesis
        proof (cases res)
          case r: (Inr r)
          with miss o show ?thesis by (simp add: Str patched_files_success)
        next
          case (Inl e)
          show ?thesis
          proof (cases "isinstance_Exception e")
            case True
            with miss o Inl
            have "patched_files meipass original_files (Str name) s = (Inr (PathT ?p), s')"
              by (simp add: patched_files_fallback)
            with miss show ?thesis by (simp add: Str patched_files_success)
          next
            case e: False
            with miss o Inl
            have "patched_files meipass original_files (Str name) s = (Inl e, s')"
              by (simp add: patched_files_reraise)
            with miss e show ?thesis by (simp add: Str patched_files_reraise)
          qed
        qed
      qed
    qed
  next
    case (Module x)
    then show ?thesis by (simp add: patched_files_not_str)
  next
    case (Object x)
    then show ?thesis by (simp add: patched_files_not_str)
  qed
qed

lemma fix_importlib_resources_files:
  "files (fix_importlib_resources s) =
     (case sys_frozen s of
        Some True \<Rightarrow>
          (case sys_MEIPASS s of
             Some meipass \<Rightarrow> if meipass = [] then files s else PatchedFiles meipass (files s)
           | None \<Rightarrow> files s)
      | _ \<Rightarrow> files s)"
  by (simp add: fix_importlib_resources_def split: option.splits bool.splits)

lemma runtime_hook_total: "\<exists>s'. runtime_hook s = Inr s'"
  by (simp add: runtime_hook_eq)

lemma runtime_hook_fields:
  assumes "runtime_hook s = Inr s'"
  shows "environ s' = (\<lambda>v. if v \<in> set proxy_vars then None else environ s v)"
    and "getproxies s' = EmptyLambda"
    and "sys_frozen s' = sys_frozen s"
    and "sys_MEIPASS s' = sys_MEIPASS s"
    and "os_stat s' = os_stat s"
    and "files s' =
     (case sys_frozen s of
        Some True \<Rightarrow>
          (case sys_MEIPASS s of
             Some meipass \<Rightarrow> if meipass = [] then files s else PatchedFiles meipass (files s)
           | None \<Rightarrow> files s)
      | _ \<Rightarrow> files s)"
  using assms
  by (auto simp add: runtime_hook_eq fix_importlib_resources_frame fix_importlib_resources_files
      split: option.splits bool.splits)

lemma hooked_proc_eq: "runtime_hook frozen_proc = Inr hooked_proc"
proof -
  have "(\<lambda>v. if v \<in> set proxy_vars then None else environ frozen_proc v) =
        [''PATH'' \<mapsto> ''/usr/bin'']"
    by (rule ext) (simp add: proxy_vars_def frozen_proc_def)
  then show ?thesis
    by (simp add: runtime_hook_eq fix_importlib_resources_def)
       (simp add: frozen_proc_def hooked_proc_def)
qed

lemma prompts_path:
  "pyinstaller_path ''/tmp/_MEI123'' ''browser_use.agent.system_prompts'' =
     PurePosixPath ''/'' [''tmp'', ''_MEI123'', ''browser_use'', ''agent'', ''system_prompts'']"
  by (simp add: truediv_def Path_def splitroot_def replace_dots_def)

lemma a_b_path:
  "pyinstaller_path ''/tmp/_MEI123'' ''a.b'' =
     PurePosixPath ''/'' [''tmp'', ''_MEI123'', ''a'', ''b'']"
  by (simp add: truediv_def Path_def splitroot_def replace_dots_def)

lemma prompts_exists:
  "path_exists hooked_proc
     (pyinstaller_path ''/tmp/_MEI123'' ''browser_use.agent.system_prompts'') = Inr True"
  by (simp add: prompts_path path_exists_def hooked_proc_def posix_stat_def)

lemma a_b_missing:
  "path_exists hooked_proc (pyinstaller_path ''/tmp/_MEI123'' ''a.b'') = Inr False"
  by (simp add: a_b_path path_exists_def hooked_proc_def posix_stat_def IGNORED_ERRNOS_def)

lemma long_name_path:
  "pyinstaller_path ''/tmp/_MEI123'' long_name =
     PurePosixPath ''/'' [''tmp'', ''_MEI123'', long_name]"
  by code_simp

lemma long_name_length: "length long_name = 256"
  by (simp add: long_name_def)

lemma long_name_stat:
  "os_stat hooked_proc (pyinstaller_path ''/tmp/_MEI123'' long_name) =
     StatOSError ''ENAMETOOLONG''"
  by (simp add: long_name_path hooked_proc_def posix_stat_def long_name_length)

lemma long_name_exists_raises:
  "path_exists hooked_proc (pyinstaller_path ''/tmp/_MEI123'' long_name) =
     Inl (Exception ''OSError'')"
  by (simp add: path_exists_def long_name_stat IGNORED_ERRNOS_def)

lemma hooked_files:
  assumes "sys_frozen s = Some True" and "sys_MEIPASS s = Some meipass" and "meipass \<noteq> []"
  shows "\<exists>s'. runtime_hook s = Inr s' \<and> files s' = PatchedFiles meipass (files s)"
proof -
  obtain s' where r: "runtime_hook s = Inr s'"
    using runtime_hook_total by blast
  with runtime_hook_fields(6) [OF r] assms show ?thesis by simp
qed

lemma unhooked_files:
  assumes "sys_frozen s \<noteq> Some True \<or> sys_MEIPASS s = None \<or> sys_MEIPASS s = Some []"
  shows "\<exists>s'. runtime_hook s = Inr s' \<and> files s' = files s"
proof -
  obtain s' where r: "runtime_hook s = Inr s'"
    using runtime_hook_total by blast
  with runtime_hook_fields(6) [OF r] assms show ?thesis
    by (auto split: option.splits bool.splits)
qed

lemma rehook_same_behaviour:
  assumes first: "runtime_hook s = Inr s1"
    and env: "environ sk = environ s1"
    and gp: "getproxies sk = getproxies s1"
    and fr: "sys_frozen sk = sys_frozen s"
    and mp: "sys_MEIPASS sk = sys_MEIPASS s"
    and fl: "\<forall>library_files. call_files library_files (files sk) = call_files library_files (files s1)"
    and again: "runtime_hook sk = Inr sk'"
  shows "environ sk' = environ s1 \<and> getproxies sk' = getproxies s1 \<and>
         sys_frozen sk' = sys_frozen s \<and> sys_MEIPASS sk' = sys_MEIPASS s \<and>
         (\<forall>library_files. call_files library_files (files sk') = call_files library_files (files s1))"
proof -
  note a = runtime_hook_fields [OF first]
  note b = runtime_hook_fields [OF again]
  have "environ sk' = environ s1"
    unfolding b(1) env a(1) by (rule ext) simp
  moreover have "getproxies sk' = getproxies s1"
    by (simp add: a(2) b(2))
  moreover have "sys_frozen sk' = sys_frozen s" "sys_MEIPASS sk' = sys_MEIPASS s"
    by (simp_all add: b(3,4) fr mp)
  moreover have "call_files library_files (files sk') = call_files library_files (files s1)"
    for library_files
  proof (cases "sys_frozen s = Some True \<and> (\<exists>m. sys_MEIPASS s = Some m \<and> m \<noteq> [])")
    case True
    then obtain m where m: "sys_frozen s = Some True" "sys_MEIPASS s = Some m" "m \<noteq> []"
      by blast
    have "files s1 = PatchedFiles m (files s)"
      using a(6) m by simp
    moreover have "files sk' = PatchedFiles m (files sk)"
      using b(6) m fr mp by simp
    ultimately show ?thesis
      using fl by (simp add: patched_files_idem)
  next
    case False
    then have "files sk' = files sk"
      using b(6) fr mp by (auto split: option.splits bool.splits)
    then show ?thesis using fl by simp
  qed
  ultimately show ?thesis by blast
qed

lemma run_hooks_same_behaviour:
  assumes first: "runtime_hook s = Inr s1"
    and env: "environ sk = environ s1"
    and gp: "getproxies sk = getproxies s1"
    and fr: "sys_frozen sk = sys_frozen s"
    and mp: "sys_MEIPASS sk = sys_MEIPASS s"
    and fl: "\<forall>library_files. call_files library_files (files sk) = call_files library_files (files s1)"
  shows "\<exists>sn. run_hooks n sk = Inr sn \<and> environ sn = environ s1 \<and> getproxies sn = getproxies s1 \<and>
         sys_frozen sn = sys_frozen s \<and> sys_MEIPASS sn = sys_MEIPASS s \<and>
         (\<forall>library_files. call_files library_files (files sn) = call_files library_files (files s1))"
  using env gp fr mp fl
proof (induction n arbitrary: sk)
  case 0
  then show ?case by simp
next
  case (Suc n)
  obtain sk' where again: "runtime_hook sk = Inr sk'"
    using runtime_hook_total by blast
  from rehook_same_behaviour [OF first Suc.prems again]
  have "\<exists>sn. run_hooks n sk' = Inr sn \<and> environ sn = environ s1 \<and> getproxies sn = getproxies s1 \<and>
         sys_frozen sn = sys_frozen s \<and> sys_MEIPASS sn = sys_MEIPASS s \<and>
         (\<forall>library_files. call_files library_files (files sn) = call_files library_files (files s1))"
    by (intro Suc.IH) blast+
  with again show ?case by simp
qed

subsection \<open>Proxy discovery and the proxy variables\<close>

text \<open>
  C3. The module body always runs to its end, and in the process it leaves, a call of
  the function bound to \<^verbatim>\<open>urllib.request.getproxies\<close> returns the empty mapping: for
  every process \<open>s\<close> the hook starts in, for every process \<open>t\<close> the call is made in
  (so for every environment, before or after) and whatever the library's own function
  would have answered.
\<close>

theorem getproxies_returns_empty:
  "\<exists>s'. runtime_hook s = Inr s' \<and>
        (\<forall>system_getproxies t.
           call_getproxies system_getproxies (getproxies s') t = Map.empty)"
  by (simp add: runtime_hook_eq fix_importlib_resources_frame)

text \<open>
  C4. The module body runs to its end without an exception, whether or not any of the
  eight variables was set; in the environment it leaves, each of the eight names is
  absent, and every other name has the value it had before.
\<close>

theorem proxy_vars_removed:
  "\<exists>s'. runtime_hook s = Inr s' \<and>
        (\<forall>var \<in> set proxy_vars. environ s' var = None) \<and>
        (\<forall>var. var \<notin> set proxy_vars \<longrightarrow> environ s' var = environ s var)"
  by (simp add: runtime_hook_eq fix_importlib_resources_frame)

text \<open>
  At \<open>frozen_proc\<close>, where \<^verbatim>\<open>HTTP_PROXY\<close> is set and \<^verbatim>\<open>socks_proxy\<close> is not: both are
  absent afterwards and \<^verbatim>\<open>PATH\<close> is kept.
\<close>

theorem proxy_vars_removed_witness:
  "\<exists>s'. runtime_hook frozen_proc = Inr s' \<and>
        environ frozen_proc ''HTTP_PROXY'' = Some ''socks5://127.0.0.1:1080'' \<and>
        environ frozen_proc ''socks_proxy'' = None \<and>
        environ s' ''HTTP_PROXY'' = None \<and>
        environ s' ''socks_proxy'' = None \<and>
        environ s' ''PATH'' = Some ''/usr/bin''"
proof -
  from proxy_vars_removed [of frozen_proc] obtain s' where
    r: "runtime_hook frozen_proc = Inr s'" and
    gone: "\<forall>var \<in> set proxy_vars. environ s' var = None" and
    kept: "\<forall>var. var \<notin> set proxy_vars \<longrightarrow> environ s' var = environ frozen_proc var"
    by blast
  have "environ s' ''HTTP_PROXY'' = None" "environ s' ''socks_proxy'' = None"
    using gone by (simp_all add: proxy_vars_def)
  moreover have "environ s' ''PATH'' = Some ''/usr/bin''"
    using kept by (simp add: proxy_vars_def frozen_proc_def)
  moreover have "environ frozen_proc ''HTTP_PROXY'' = Some ''socks5://127.0.0.1:1080''"
    "environ frozen_proc ''socks_proxy'' = None"
    by (simp_all add: frozen_proc_def)
  ultimately show ?thesis using r by blast
qed

subsection \<open>The patched resolver on a string\<close>



text \<open>
  C6, as stated, fails: the check \<^verbatim>\<open>exists()\<close> of line 51 stands before the \<^verbatim>\<open>try\<close> of
  line 55, and pathlib raises every \<^verbatim>\<open>OSError\<close> of \<^verbatim>\<open>stat()\<close> again but the four it
  ignores. At \<open>frozen_proc\<close>, for a name of 256 characters: no such path is on the disk
  (\<^verbatim>\<open>stat()\<close> fails with \<^verbatim>\<open>ENAMETOOLONG\<close>) and the original function succeeds, but the
  installed function raises \<^verbatim>\<open>OSError\<close> and does not return the original result.
\<close>

theorem exists_raises_before_original:
  "sys_frozen frozen_proc = Some True \<and>
   sys_MEIPASS frozen_proc = Some ''/tmp/_MEI123'' \<and>
   runtime_hook frozen_proc = Inr hooked_proc \<and>
   length long_name = 256 \<and>
   os_stat hooked_proc (pyinstaller_path ''/tmp/_MEI123'' long_name) =
     StatOSError ''ENAMETOOLONG'' \<and>
   call_files found_files (files frozen_proc) (Str long_name) hooked_proc =
     (Inr (ReaderT ''site-packages''), hooked_proc) \<and>
   call_files found_files (files hooked_proc) (Str long_name) hooked_proc =
     (Inl (Exception ''OSError''), hooked_proc)"
proof -
  have "files hooked_proc = PatchedFiles ''/tmp/_MEI123'' LibraryFiles"
    "files frozen_proc = LibraryFiles"
    "sys_frozen frozen_proc = Some True" "sys_MEIPASS frozen_proc = Some ''/tmp/_MEI123''"
    by (simp_all add: hooked_proc_def frozen_proc_def)
  then show ?thesis
    using long_name_exists_raises
    by (simp add: hooked_proc_eq long_name_length long_name_stat found_files_def
        patched_files_exists_raises)
qed

text \<open>
  C6, amended. In a frozen process whose \<^verbatim>\<open>sys._MEIPASS\<close> is a non-empty string, for a
  string \<open>name\<close> for whose path under the extraction root \<^verbatim>\<open>exists()\<close> answers
  \<^verbatim>\<open>False\<close> when the call is made: if the function that was installed before the hook
  returns \<open>r\<close> for \<open>name\<close>, the function installed by the hook returns the same \<open>r\<close> (and
  leaves the process the original call left), so the two calls agree.
\<close>

theorem original_result_returned:
  assumes "sys_frozen s = Some True" and "sys_MEIPASS s = Some meipass" and "meipass \<noteq> []"
    and "path_exists t (pyinstaller_path meipass name) = Inr False"
    and "call_files library_files (files s) (Str name) t = (Inr r, t')"
  shows "\<exists>s'. runtime_hook s = Inr s' \<and>
           call_files library_files (files s') (Str name) t = (Inr r, t') \<and>
           call_files library_files (files s') (Str name) t =
             call_files library_files (files s) (Str name) t"
proof -
  from hooked_files [OF assms(1-3)] obtain s' where
    r: "runtime_hook s = Inr s'" and f: "files s' = PatchedFiles meipass (files s)"
    by blast
  have "call_files library_files (files s') (Str name) t = (Inr r, t')"
    using f assms(4,5) by (simp add: patched_files_success)
  with r assms(5) show ?thesis by simp
qed

text \<open>
  At \<open>frozen_proc\<close>, for the name \<^verbatim>\<open>a.b\<close>, which has no directory under
  \<^verbatim>\<open>/tmp/_MEI123\<close>, with a library function that finds the package.
\<close>

theorem original_result_returned_witness:
  "sys_frozen frozen_proc = Some True \<and>
   sys_MEIPASS frozen_proc = Some ''/tmp/_MEI123'' \<and>
   runtime_hook frozen_proc = Inr hooked_proc \<and>
   path_exists hooked_proc (pyinstaller_path ''/tmp/_MEI123'' ''a.b'') = Inr False \<and>
   call_files found_files (files frozen_proc) (Str ''a.b'') hooked_proc =
     (Inr (ReaderT ''site-packages''), hooked_proc) \<and>
   call_files found_files (files hooked_proc) (Str ''a.b'') hooked_proc =
     (Inr (ReaderT ''site-packages''), hooked_proc)"
proof -
  have h: "sys_frozen frozen_proc = Some True" "sys_MEIPASS frozen_proc = Some ''/tmp/_MEI123''"
    by (simp_all add: frozen_proc_def)
  note e = a_b_missing
  have o: "call_files found_files (files frozen_proc) (Str ''a.b'') hooked_proc =
     (Inr (ReaderT ''site-packages''), hooked_proc)"
    by (simp add: frozen_proc_def found_files_def)
  from original_result_returned [OF h _ e o]
  have "call_files found_files (files hooked_proc) (Str ''a.b'') hooked_proc =
     (Inr (ReaderT ''site-packages''), hooked_proc)"
    by (simp add: hooked_proc_eq)
  with h e o show ?thesis by (simp add: hooked_proc_eq)
qed

text \<open>
  C1, as stated, fails, in two ways. The handler of line 57 is \<^verbatim>\<open>except Exception\<close>,
  so an exception that is not an instance of \<^verbatim>\<open>Exception\<close> is not caught: at
  \<open>frozen_proc\<close>, for the name \<^verbatim>\<open>a.b\<close>, which has no directory under \<^verbatim>\<open>/tmp/_MEI123\<close>,
  the original function raises \<^verbatim>\<open>KeyboardInterrupt\<close>, and the installed function raises
  it too instead of returning the path. And the check \<^verbatim>\<open>exists()\<close> of line 51 stands
  before the \<^verbatim>\<open>try\<close>: for a name of 256 characters no such path is on the disk
  (\<^verbatim>\<open>stat()\<close> fails with \<^verbatim>\<open>ENAMETOOLONG\<close>) and the original function raises
  \<^verbatim>\<open>ModuleNotFoundError\<close>, but the installed function raises \<^verbatim>\<open>OSError\<close> instead of
  returning the path.
\<close>

theorem fallback_not_reached:
  "sys_frozen frozen_proc = Some True \<and>
   sys_MEIPASS frozen_proc = Some ''/tmp/_MEI123'' \<and>
   runtime_hook frozen_proc = Inr hooked_proc \<and>
   path_exists hooked_proc (pyinstaller_path ''/tmp/_MEI123'' ''a.b'') = Inr False \<and>
   call_files interrupted_files (files frozen_proc) (Str ''a.b'') hooked_proc =
     (Inl (BaseException ''KeyboardInterrupt''), hooked_proc) \<and>
   call_files interrupted_files (files hooked_proc) (Str ''a.b'') hooked_proc =
     (Inl (BaseException ''KeyboardInterrupt''), hooked_proc) \<and>
   length long_name = 256 \<and>
   os_stat hooked_proc (pyinstaller_path ''/tmp/_MEI123'' long_name) =
     StatOSError ''ENAMETOOLONG'' \<and>
   call_files missing_files (files frozen_proc) (Str long_name) hooked_proc =
     (Inl (Exception ''ModuleNotFoundError''), hooked_proc) \<and>
   call_files missing_files (files hooked_proc) (Str long_name) hooked_proc =
     (Inl (Exception ''OSError''), hooked_proc)"
proof -
  have f: "files hooked_proc = PatchedFiles ''/tmp/_MEI123'' LibraryFiles"
    "files frozen_proc = LibraryFiles"
    "sys_frozen frozen_proc = Some True" "sys_MEIPASS frozen_proc = Some ''/tmp/_MEI123''"
    by (simp_all add: hooked_proc_def frozen_proc_def)
  have "patched_files ''/tmp/_MEI123'' interrupted_files (Str ''a.b'') hooked_proc =
          (Inl (BaseException ''KeyboardInterrupt''), hooked_proc)"
    using a_b_missing by (simp add: patched_files_reraise interrupted_files_def)
  moreover have "patched_files ''/tmp/_MEI123'' missing_files (Str long_name) hooked_proc =
          (Inl (Exception ''OSError''), hooked_proc)"
    using long_name_exists_raises by (simp add: patched_files_exists_raises)
  ultimately show ?thesis
    using f a_b_missing
    by (simp add: hooked_proc_eq long_name_length long_name_stat interrupted_files_def
        missing_files_def)
qed

text \<open>
  C1, amended. In a frozen process whose \<^verbatim>\<open>sys._MEIPASS\<close> is a non-empty string, for a
  string \<open>name\<close> for whose path under the extraction root \<^verbatim>\<open>exists()\<close> answers
  \<^verbatim>\<open>False\<close> when the call is made: if the function that was installed before the hook
  raises an instance of \<^verbatim>\<open>Exception\<close>, the function installed by the hook returns the
  path under the extraction root, with no further check that it exists, and raises
  nothing.
\<close>

theorem fallback_path_on_Exception:
  assumes "sys_frozen s = Some True" and "sys_MEIPASS s = Some meipass" and "meipass \<noteq> []"
    and "path_exists t (pyinstaller_path meipass name) = Inr False"
    and "call_files library_files (files s) (Str name) t = (Inl e, t')"
    and "isinstance_Exception e"
  shows "\<exists>s'. runtime_hook s = Inr s' \<and>
           call_files library_files (files s') (Str name) t =
             (Inr (PathT (pyinstaller_path meipass name)), t')"
proof -
  from hooked_files [OF assms(1-3)] obtain s' where
    r: "runtime_hook s = Inr s'" and f: "files s' = PatchedFiles meipass (files s)"
    by blast
  have "call_files library_files (files s') (Str name) t =
          (Inr (PathT (pyinstaller_path meipass name)), t')"
    using f assms(4-6) by (simp add: patched_files_fallback)
  with r show ?thesis by simp
qed

text \<open>
  At \<open>frozen_proc\<close>, for the name \<^verbatim>\<open>a.b\<close>, with a library function that raises
  \<^verbatim>\<open>ModuleNotFoundError\<close>: the path \<^verbatim>\<open>/tmp/_MEI123/a/b\<close>, which is not on the disk, is
  returned.
\<close>

theorem fallback_path_on_Exception_witness:
  "sys_frozen frozen_proc = Some True \<and>
   sys_MEIPASS frozen_proc = Some ''/tmp/_MEI123'' \<and>
   runtime_hook frozen_proc = Inr hooked_proc \<and>
   path_exists hooked_proc (pyinstaller_path ''/tmp/_MEI123'' ''a.b'') = Inr False \<and>
   call_files missing_files (files frozen_proc) (Str ''a.b'') hooked_proc =
     (Inl (Exception ''ModuleNotFoundError''), hooked_proc) \<and>
   isinstance_Exception (Exception ''ModuleNotFoundError'') \<and>
   call_files missing_files (files hooked_proc) (Str ''a.b'') hooked_proc =
     (Inr (PathT (PurePosixPath ''/'' [''tmp'', ''_MEI123'', ''a'', ''b''])), hooked_proc)"
proof -
  have h: "sys_frozen frozen_proc = Some True" "sys_MEIPASS frozen_proc = Some ''/tmp/_MEI123''"
    by (simp_all add: frozen_proc_def)
  note e = a_b_missing
  have o: "call_files missing_files (files frozen_proc) (Str ''a.b'') hooked_proc =
     (Inl (Exception ''ModuleNotFoundError''), hooked_proc)"
    by (simp add: frozen_proc_def missing_files_def)
  have i: "isinstance_Exception (Exception ''ModuleNotFoundError'')"
    by simp
  from fallback_path_on_Exception [OF h _ e o i]
  have "call_files missing_files (files hooked_proc) (Str ''a.b'') hooked_proc =
     (Inr (PathT (pyinstaller_path ''/tmp/_MEI123'' ''a.b'')), hooked_proc)"
    by (simp add: hooked_proc_eq)
  with h e o show ?thesis by (simp add: hooked_proc_eq a_b_path)
qed

subsection \<open>The patched resolver on other arguments\<close>

text \<open>
  C8. In a frozen process whose \<^verbatim>\<open>sys._MEIPASS\<close> is a non-empty string, for an argument
  that is not a \<^verbatim>\<open>str\<close>: the function installed by the hook does what the function
  installed before it does, in every process the call is made in, so whatever is on the
  disk. The closure returns what the function it captured returns, whichever function
  that is. In particular an exception of the original function, of either kind, reaches
  the caller.
\<close>

theorem non_string_delegates:
  assumes "sys_frozen s = Some True" and "sys_MEIPASS s = Some meipass" and "meipass \<noteq> []"
    and "\<forall>name. package \<noteq> Str name"
  shows "\<exists>s'. runtime_hook s = Inr s' \<and>
           (\<forall>library_files t.
              call_files library_files (files s') package t =
                call_files library_files (files s) package t) \<and>
           (\<forall>original_files t.
              patched_files meipass original_files package t = original_files package t) \<and>
           (\<forall>library_files t e t'.
              call_files library_files (files s) package t = (Inl e, t') \<longrightarrow>
              call_files library_files (files s') package t = (Inl e, t'))"
proof -
  from hooked_files [OF assms(1-3)] obtain s' where
    r: "runtime_hook s = Inr s'" and f: "files s' = PatchedFiles meipass (files s)"
    by blast
  have "call_files library_files (files s') package t =
        call_files library_files (files s) package t" for library_files t
    using f assms(4) by (simp add: patched_files_not_str)
  with r assms(4) show ?thesis by (simp add: patched_files_not_str)
qed

text \<open>
  At \<open>frozen_proc\<close>, for the module object of the prompt templates, whose directory
  under \<^verbatim>\<open>/tmp/_MEI123\<close> exists, with a library function that raises: the exception is
  raised by the installed function, where the string of the same name would have been
  answered with the directory.
\<close>

theorem non_string_delegates_witness:
  "sys_frozen frozen_proc = Some True \<and>
   sys_MEIPASS frozen_proc = Some ''/tmp/_MEI123'' \<and>
   runtime_hook frozen_proc = Inr hooked_proc \<and>
   path_exists hooked_proc
     (pyinstaller_path ''/tmp/_MEI123'' ''browser_use.agent.system_prompts'') = Inr True \<and>
   call_files missing_files (files frozen_proc)
     (Module ''browser_use.agent.system_prompts'') hooked_proc =
     (Inl (Exception ''ModuleNotFoundError''), hooked_proc) \<and>
   call_files missing_files (files hooked_proc)
     (Module ''browser_use.agent.system_prompts'') hooked_proc =
     (Inl (Exception ''ModuleNotFoundError''), hooked_proc)"
proof -
  have h: "sys_frozen frozen_proc = Some True" "sys_MEIPASS frozen_proc = Some ''/tmp/_MEI123''"
    by (simp_all add: frozen_proc_def)
  note e = prompts_exists
  have n: "\<forall>name. Module ''browser_use.agent.system_prompts'' \<noteq> Str name"
    by simp
  have o: "call_files missing_files (files frozen_proc)
     (Module ''browser_use.agent.system_prompts'') hooked_proc =
     (Inl (Exception ''ModuleNotFoundError''), hooked_proc)"
    by (simp add: frozen_proc_def missing_files_def)
  from non_string_delegates [OF h _ n]
  have "call_files missing_files (files hooked_proc)
     (Module ''browser_use.agent.system_prompts'') hooked_proc =
     call_files missing_files (files frozen_proc)
     (Module ''browser_use.agent.system_prompts'') hooked_proc"
    by (simp add: hooked_proc_eq)
  with h e o show ?thesis by (simp add: hooked_proc_eq)
qed

subsection \<open>What is gated and what is not\<close>

text \<open>
  C5. If \<^verbatim>\<open>sys.frozen\<close> is not true (missing or false), or \<^verbatim>\<open>sys._MEIPASS\<close> is
  unavailable (missing, or the empty string), the module body ends without an exception
  and leaves the function bound to \<^verbatim>\<open>importlib.resources.files\<close> as it was: resolving
  any argument afterwards gives what the original function gives.
\<close>

theorem resolver_unmodified_when_not_bundled:
  assumes "sys_frozen s \<noteq> Some True \<or> sys_MEIPASS s = None \<or> sys_MEIPASS s = Some []"
  shows "\<exists>s'. runtime_hook s = Inr s' \<and>
           files s' = files s \<and>
           (\<forall>library_files package t.
              call_files library_files (files s') package t =
                call_files library_files (files s) package t)"
proof -
  from unhooked_files [OF assms] obtain s' where
    "runtime_hook s = Inr s'" and "files s' = files s"
    by blast
  then show ?thesis by simp
qed

text \<open>
  At \<open>plain_proc\<close>, a plain interpreter: the library's function is still installed, and
  its exception for a missing package reaches the caller.
\<close>

theorem resolver_unmodified_when_not_bundled_witness:
  "sys_frozen plain_proc \<noteq> Some True \<and>
   (\<exists>s'. runtime_hook plain_proc = Inr s' \<and>
      files s' = LibraryFiles \<and>
      call_files missing_files (files s') (Str ''a.b'') s' =
        (Inl (Exception ''ModuleNotFoundError''), s'))"
proof -
  have h: "sys_frozen plain_proc \<noteq> Some True"
    by (simp add: plain_proc_def)
  then have "sys_frozen plain_proc \<noteq> Some True \<or> sys_MEIPASS plain_proc = None \<or>
             sys_MEIPASS plain_proc = Some []"
    by simp
  from resolver_unmodified_when_not_bundled [OF this] obtain s' where
    r: "runtime_hook plain_proc = Inr s'" and f: "files s' = files plain_proc"
    by blast
  have "files s' = LibraryFiles"
    using f by (simp add: plain_proc_def)
  moreover from this have "call_files missing_files (files s') (Str ''a.b'') s' =
        (Inl (Exception ''ModuleNotFoundError''), s')"
    by (simp add: missing_files_def)
  ultimately show ?thesis using h r by blast
qed

text \<open>
  C9. In every run of the module body, whatever \<^verbatim>\<open>sys.frozen\<close> and \<^verbatim>\<open>sys._MEIPASS\<close>
  are, the function bound to \<^verbatim>\<open>urllib.request.getproxies\<close> is replaced by the lambda
  that returns the empty mapping and the eight proxy variables are removed. Only the
  binding of \<^verbatim>\<open>importlib.resources.files\<close> depends on the two attributes: it is replaced
  by the closure when \<^verbatim>\<open>sys.frozen\<close> is true and \<^verbatim>\<open>sys._MEIPASS\<close> is a non-empty
  string, and is left as it was otherwise.
\<close>

theorem proxy_effects_unconditional:
  "\<exists>s'. runtime_hook s = Inr s' \<and>
        getproxies s' = EmptyLambda \<and>
        (\<forall>var \<in> set proxy_vars. environ s' var = None) \<and>
        files s' =
          (case sys_frozen s of
             Some True \<Rightarrow>
               (case sys_MEIPASS s of
                  Some meipass \<Rightarrow>
                    if meipass = [] then files s else PatchedFiles meipass (files s)
                | None \<Rightarrow> files s)
           | _ \<Rightarrow> files s)"
proof -
  obtain s' where r: "runtime_hook s = Inr s'"
    using runtime_hook_total by blast
  show ?thesis
    using r runtime_hook_fields(1,2,6) [OF r] by simp
qed

text \<open>
  At \<open>plain_proc\<close>, where \<^verbatim>\<open>sys.frozen\<close> is missing: the proxy function is replaced and
  \<^verbatim>\<open>HTTP_PROXY\<close> is removed, while the library's \<^verbatim>\<open>files\<close> stays.
\<close>

theorem proxy_effects_unconditional_witness:
  "sys_frozen plain_proc = None \<and>
   getproxies plain_proc = SystemGetproxies \<and>
   environ plain_proc ''HTTP_PROXY'' = Some ''socks5://127.0.0.1:1080'' \<and>
   (\<exists>s'. runtime_hook plain_proc = Inr s' \<and>
      getproxies s' = EmptyLambda \<and>
      environ s' ''HTTP_PROXY'' = None \<and>
      files s' = LibraryFiles)"
proof -
  from proxy_effects_unconditional [of plain_proc] obtain s' where
    r: "runtime_hook plain_proc = Inr s'" and g: "getproxies s' = EmptyLambda" and
    v: "\<forall>var \<in> set proxy_vars. environ s' var = None" and
    f: "files s' =
          (case sys_frozen plain_proc of
             Some True \<Rightarrow>
               (case sys_MEIPASS plain_proc of
                  Some meipass \<Rightarrow>
                    if meipass = [] then files plain_proc
                    else PatchedFiles meipass (files plain_proc)
                | None \<Rightarrow> files plain_proc)
           | _ \<Rightarrow> files plain_proc)"
    by blast
  have "environ s' ''HTTP_PROXY'' = None"
    using v by (simp add: proxy_vars_def)
  moreover have "files s' = LibraryFiles"
    using f by (simp add: plain_proc_def)
  moreover have "sys_frozen plain_proc = None" "getproxies plain_proc = SystemGetproxies"
    "environ plain_proc ''HTTP_PROXY'' = Some ''socks5://127.0.0.1:1080''"
    by (simp_all add: plain_proc_def)
  ultimately show ?thesis using r g by blast
qed

subsection \<open>Running the module body again\<close>

text \<open>
  C7. Running the module body \<open>n + 2\<close> times in one process, for any \<open>n\<close>, ends without
  an exception and leaves a process that behaves as the process after the first run: the
  same environment, the same function bound to \<^verbatim>\<open>urllib.request.getproxies\<close> with the
  same answers, and a function bound to \<^verbatim>\<open>importlib.resources.files\<close> that returns the
  same result and leaves the same process, for every argument, in every process it is
  called in and for every library function. (The function object itself is not the same:
  each run in a frozen process wraps the previous closure in a new one.)
\<close>

theorem runtime_hook_idempotent:
  "\<exists>s1 sn. runtime_hook s = Inr s1 \<and> run_hooks (Suc (Suc n)) s = Inr sn \<and>
      environ sn = environ s1 \<and>
      getproxies sn = getproxies s1 \<and>
      (\<forall>system_getproxies t.
         call_getproxies system_getproxies (getproxies sn) t =
           call_getproxies system_getproxies (getproxies s1) t) \<and>
      (\<forall>library_files package t.
         call_files library_files (files sn) package t =
           call_files library_files (files s1) package t)"
proof -
  obtain s1 where first: "runtime_hook s = Inr s1"
    using runtime_hook_total by blast
  note a = runtime_hook_fields [OF first]
  from run_hooks_same_behaviour [OF first refl refl a(3) a(4), of "Suc n"]
  obtain sn where "run_hooks (Suc n) s1 = Inr sn" "environ sn = environ s1"
    "getproxies sn = getproxies s1"
    "\<forall>library_files. call_files library_files (files sn) = call_files library_files (files s1)"
    by blast
  with first show ?thesis by simp
qed

subsection \<open>The patched resolver and the process state\<close>

text \<open>
  C10, as stated, fails: on a miss, \<^verbatim>\<open>patched_files\<close> calls the original function,
  which imports the package, and the import runs the package's module body. At
  \<open>hooked_proc\<close>, for the name \<^verbatim>\<open>a.b\<close>, with a library function whose import sets
  \<^verbatim>\<open>PKG_LOADED\<close>: the call of the installed function succeeds with the original result
  and leaves an environment in which \<^verbatim>\<open>PKG_LOADED\<close> is set.
\<close>

theorem import_changes_environ:
  "files hooked_proc = PatchedFiles ''/tmp/_MEI123'' LibraryFiles \<and>
   environ hooked_proc ''PKG_LOADED'' = None \<and>
   path_exists hooked_proc (pyinstaller_path ''/tmp/_MEI123'' ''a.b'') = Inr False \<and>
   fst (call_files importing_files (files hooked_proc) (Str ''a.b'') hooked_proc) =
     Inr (ReaderT ''site-packages'') \<and>
   environ (snd (call_files importing_files (files hooked_proc) (Str ''a.b'') hooked_proc))
     ''PKG_LOADED'' = Some ''1''"
proof -
  have f: "files hooked_proc = PatchedFiles ''/tmp/_MEI123'' LibraryFiles"
    "environ hooked_proc ''PKG_LOADED'' = None"
    by (simp_all add: hooked_proc_def)
  have "patched_files ''/tmp/_MEI123'' importing_files (Str ''a.b'') hooked_proc =
        importing_files (Str ''a.b'') hooked_proc"
    using a_b_missing by (simp add: patched_files_success importing_files_def)
  then show ?thesis
    using f a_b_missing by (simp add: importing_files_def)
qed

text \<open>
  C10, amended. A call of \<^verbatim>\<open>patched_files\<close> makes no change of its own to the process
  (its environment and the functions bound to \<^verbatim>\<open>urllib.request.getproxies\<close> and
  \<^verbatim>\<open>importlib.resources.files\<close> included): for every argument and every outcome, the
  process it leaves is the process it was called in when \<^verbatim>\<open>exists()\<close> answers
  \<^verbatim>\<open>True\<close> for the path under the extraction root or raises (the original function is
  not called then), and otherwise the process that the call of the original function
  left. So whenever the original function leaves the process unchanged, so does the
  patched one.
\<close>

theorem patched_files_adds_no_state_change:
  "snd (patched_files meipass original_files package s) =
     (case package of
        Str name \<Rightarrow>
          (case path_exists s (pyinstaller_path meipass name) of
             Inl e \<Rightarrow> s
           | Inr found \<Rightarrow> if found then s else snd (original_files package s))
      | _ \<Rightarrow> snd (original_files package s)) \<and>
   (snd (original_files package s) = s \<longrightarrow>
    snd (patched_files meipass original_files package s) = s)"
proof -
  obtain res s' where o: "original_files package s = (res, s')"
    by (cases "original_files package s")
  have "snd (patched_files meipass original_files package s) =
     (case package of
        Str name \<Rightarrow>
          (case path_exists s (pyinstaller_path meipass name) of
             Inl e \<Rightarrow> s
           | Inr found \<Rightarrow> if found then s else snd (original_files package s))
      | _ \<Rightarrow> snd (original_files package s))"
    using o by (cases package; cases res)
      (auto simp add: patched_files_def split: sum.splits)
  then show ?thesis
    by (simp split: package.splits sum.splits)
qed

text \<open>
  At \<open>hooked_proc\<close>, for the name \<^verbatim>\<open>a.b\<close>, with a library function that changes
  nothing: the process after the call is \<open>hooked_proc\<close>.
\<close>

theorem patched_files_adds_no_state_change_witness:
  "snd (found_files (Str ''a.b'') hooked_proc) = hooked_proc \<and>
   snd (patched_files ''/tmp/_MEI123'' found_files (Str ''a.b'') hooked_proc) = hooked_proc \<and>
   snd (call_files found_files (files hooked_proc) (Str ''a.b'') hooked_proc) = hooked_proc"
proof -
  have p: "snd (found_files (Str ''a.b'') hooked_proc) = hooked_proc"
    by (simp add: found_files_def)
  from patched_files_adds_no_state_change
         [of "''/tmp/_MEI123''" found_files "Str ''a.b''" hooked_proc] p
  have q: "snd (patched_files ''/tmp/_MEI123'' found_files (Str ''a.b'') hooked_proc) = hooked_proc"
    by blast
  have "files hooked_proc = PatchedFiles ''/tmp/_MEI123'' LibraryFiles"
    by (simp add: hooked_proc_def)
  with p q show ?thesis by simp
qed

end
